theory Spec2Isabelle
  imports
    Complex_Main
    "HOL-Library.Char_ord"
    "HOL-Library.List_Lexorder"
    "HOL-Library.Product_Lexorder"
begin

section \<open>Data model\<close>

text \<open>
  The analysis methods of \<^verbatim>\<open>MultiCloudCostAnalyzer\<close> (analyzer.py, lines 210 to 282)
  work on the pandas DataFrame that \<^verbatim>\<open>generate_cost_report\<close> builds: one row per
  \<^verbatim>\<open>CostData\<close> item, with the columns date, cloud_provider, service, cost, currency.

  A \<^verbatim>\<open>datetime\<close> is the tuple (year, month, day, microsecond of the day); tuples are
  compared lexicographically, which is the chronological order. The source never
  truncates the time of day, so it is part of the grouping key.

  Costs are Python floats. They are modelled as real numbers: sums, means and
  quotients are exact, and the two values a float can take outside the reals that this
  code can produce (NaN and the infinities, from a division by zero or from the sample
  standard deviation of a single value) are the extra constructors of \<open>float64\<close>.
  The code rounds every sum, mean, product and root to a double. A theorem whose
  statement would depend on that rounding is stated for the inputs on which it does not:
  whole-number costs, whose sums and means are exact, or values away from a threshold by
  a margin far wider than the rounding error.
\<close>

type_synonym datetime = "nat \<times> nat \<times> nat \<times> nat"

record cost_row =
  date :: datetime
  cloud_provider :: string
  service :: string
  cost :: real
  currency :: string

type_synonym dataframe = "cost_row list"

datatype float64 = Finite real | NaN | PosInf | NegInf

text \<open>\<^verbatim>\<open>k * v\<close> and \<^verbatim>\<open>m + v\<close> for a finite left operand, and numpy's \<^verbatim>\<open>x / y\<close>, which
  yields an infinity or NaN on a zero divisor instead of raising.\<close>

fun fmul :: "real \<Rightarrow> float64 \<Rightarrow> float64" where
  "fmul k (Finite s) = Finite (k * s)"
| "fmul k NaN = NaN"
| "fmul k PosInf = (if 0 < k then PosInf else if k < 0 then NegInf else NaN)"
| "fmul k NegInf = (if 0 < k then NegInf else if k < 0 then PosInf else NaN)"

fun fadd :: "real \<Rightarrow> float64 \<Rightarrow> float64" where
  "fadd m (Finite s) = Finite (m + s)"
| "fadd m NaN = NaN"
| "fadd m PosInf = PosInf"
| "fadd m NegInf = NegInf"

definition fdiv :: "real \<Rightarrow> real \<Rightarrow> float64" where
  "fdiv x y =
     (if y = 0 then (if x = 0 then NaN else if 0 < x then PosInf else NegInf)
      else Finite (x / y))"

section \<open>Text rendering\<close>

definition digit_char :: "nat \<Rightarrow> char" where
  "digit_char n = ''0123456789'' ! n"

function digits :: "nat \<Rightarrow> string" where
  "digits n = (if n < 10 then [digit_char n] else digits (n div 10) @ [digit_char (n mod 10)])"
  by pat_completeness auto
termination
  by (relation "measure id") auto

declare digits.simps [simp del]

definition zfill :: "nat \<Rightarrow> string \<Rightarrow> string" where
  "zfill w s = replicate (w - length s) (CHR ''0'') @ s"

text \<open>\<^verbatim>\<open>strftime('%Y-%m-%d')\<close>: the year padded to four digits, month and day to two.\<close>

fun strftime :: "datetime \<Rightarrow> string" where
  "strftime (y, m, d, t) =
     zfill 4 (digits y) @ ''-'' @ zfill 2 (digits m) @ ''-'' @ zfill 2 (digits d)"

text \<open>The dates a DataFrame column can hold have a four-digit year.\<close>

fun valid_date :: "datetime \<Rightarrow> bool" where
  "valid_date (y, m, d, t) \<longleftrightarrow>
     1000 \<le> y \<and> y \<le> 9999 \<and> 1 \<le> m \<and> m \<le> 12 \<and> 1 \<le> d \<and> d \<le> 31 \<and> t < 86400000000"

fun calendar_day :: "datetime \<Rightarrow> nat \<times> nat \<times> nat" where
  "calendar_day (y, m, d, t) = (y, m, d)"

text \<open>The format specs \<^verbatim>\<open>.2f\<close> and \<^verbatim>\<open>.1f\<close>: the value rounded to \<open>d\<close> decimals, a tie
  going to the even neighbour, with the sign kept.\<close>

definition round_half_even :: "real \<Rightarrow> nat" where
  "round_half_even y =
     (let f = nat \<lfloor>y\<rfloor>; r = y - real f
      in if r < 1 / 2 then f else if 1 / 2 < r then f + 1 else if even f then f else f + 1)"

definition format_fixed :: "nat \<Rightarrow> real \<Rightarrow> string" where
  "format_fixed d x =
     (let n = round_half_even (\<bar>x\<bar> * 10 ^ d)
      in (if x < 0 then ''-'' else '''') @ digits (n div 10 ^ d) @
         (if d = 0 then '''' else ''.'' @ zfill d (digits (n mod 10 ^ d))))"

fun format_float :: "nat \<Rightarrow> float64 \<Rightarrow> string" where
  "format_float d (Finite x) = format_fixed d x"
| "format_float d NaN = ''nan''"
| "format_float d PosInf = ''inf''"
| "format_float d NegInf = ''-inf''"

section \<open>Series operations\<close>

text \<open>\<^verbatim>\<open>Series.sum()\<close>, \<^verbatim>\<open>Series.mean()\<close> and \<^verbatim>\<open>Series.std()\<close> (sample standard deviation,
  \<^verbatim>\<open>ddof=1\<close>, NaN for fewer than two values). The mean is only ever taken of a
  non-empty series: every caller has passed the \<^verbatim>\<open>df.empty\<close> guard.\<close>

definition series_sum :: "real list \<Rightarrow> real" where
  "series_sum xs = foldl (+) 0 xs"

definition series_mean :: "real list \<Rightarrow> real" where
  "series_mean xs = series_sum xs / real (length xs)"

definition series_std :: "real list \<Rightarrow> float64" where
  "series_std xs =
     (if length xs \<le> 1 then NaN
      else Finite (sqrt (series_sum (map (\<lambda>x. (series_mean xs - x)\<^sup>2) xs) / real (length xs - 1))))"

text \<open>\<^verbatim>\<open>df.groupby(key)['cost'].sum()\<close>: one entry per distinct key, keys in ascending
  order (\<^verbatim>\<open>sort=True\<close> is the default), each with the sum of its rows' cost.\<close>

definition groupby_sum :: "(cost_row \<Rightarrow> 'k::linorder) \<Rightarrow> dataframe \<Rightarrow> ('k \<times> real) list" where
  "groupby_sum key df =
     map (\<lambda>k. (k, series_sum (map cost (filter (\<lambda>r. key r = k) df))))
       (sort (remdups (map key df)))"

text \<open>\<^verbatim>\<open>sort_values(ascending=False)\<close>: pandas reverses the entries, sorts them by value
  in ascending order with numpy's default \<^verbatim>\<open>quicksort\<close>, and reverses the result. That
  sort is not stable: the order it gives to entries of equal value is a matter of the
  numpy build. It is the parameter \<open>tie\<close>, the rank the library gives an entry among the
  entries of its value; every order a sort can produce is the order of some \<open>tie\<close>, and
  whatever \<open>tie\<close> is the result is a rearrangement of the entries in order of value.\<close>

type_synonym 'k tie_break = "('k \<times> real) list \<Rightarrow> 'k \<times> real \<Rightarrow> nat"

definition sort_values_desc :: "'k tie_break \<Rightarrow> ('k \<times> real) list \<Rightarrow> ('k \<times> real) list" where
  "sort_values_desc tie s = rev (sort_key (\<lambda>e. (snd e, tie (rev s) e)) (rev s))"

text \<open>\<^verbatim>\<open>Series.unique()\<close>: the distinct values in order of first appearance.\<close>

fun unique :: "'a list \<Rightarrow> 'a list" where
  "unique [] = []"
| "unique (x # xs) = x # unique (filter (\<lambda>y. y \<noteq> x) xs)"

text \<open>\<^verbatim>\<open>Series.idxmax()\<close>: the label of the first maximal value.\<close>

definition idxmax :: "('k \<times> real) list \<Rightarrow> 'k" where
  "idxmax s = fst (hd (filter (\<lambda>kv. snd kv = Max (set (map snd s))) s))"

text \<open>\<^verbatim>\<open>sorted(xs, key=f, reverse=True)\<close>: Python reverses the list, sorts it stably and
  reverses it again, so equal keys keep their original order.\<close>

definition sorted_reverse :: "('a \<Rightarrow> 'k::linorder) \<Rightarrow> 'a list \<Rightarrow> 'a list" where
  "sorted_reverse f xs = rev (sort_key f (rev xs))"

section \<open>get_cost_summary\<close>

record summary =
  total_cost :: real
  average_daily_cost :: real
  cost_by_provider :: "(string \<times> real) list"
  cost_by_service :: "(string \<times> real) list"
  date_range :: "string \<times> string"

text \<open>The result is either the dictionary \<^verbatim>\<open>{"error": msg}\<close> (\<open>Inl msg\<close>) or the
  summary dictionary, whose mappings keep their insertion order.\<close>

definition get_cost_summary :: "string tie_break \<Rightarrow> dataframe \<Rightarrow> string + summary" where
  "get_cost_summary tie df =
     (if df = [] then Inl ''No cost data available''
      else Inr \<lparr>
        total_cost = series_sum (map cost df),
        average_daily_cost = series_mean (map snd (groupby_sum date df)),
        cost_by_provider = groupby_sum cloud_provider df,
        cost_by_service = take 10 (sort_values_desc tie (groupby_sum service df)),
        date_range = (strftime (Min (set (map date df))), strftime (Max (set (map date df)))) \<rparr>)"

section \<open>detect_anomalies\<close>

text \<open>An anomaly dictionary: the keys \<^verbatim>\<open>date\<close>, \<^verbatim>\<open>provider\<close>, \<^verbatim>\<open>cost\<close>,
  \<^verbatim>\<open>expected_range\<close> and \<^verbatim>\<open>severity\<close>.\<close>

record anomaly =
  date_str :: string
  provider :: string
  observed_cost :: real
  expected_range :: string
  severity :: string

definition daily_costs :: "dataframe \<Rightarrow> ((datetime \<times> string) \<times> real) list" where
  "daily_costs df = groupby_sum (\<lambda>r. (date r, cloud_provider r)) df"

text \<open>\<^verbatim>\<open>(c - mean_cost) / std_cost if std_cost > 0 else 0\<close>; the comparison is false for
  NaN.\<close>

fun z_score :: "real \<Rightarrow> real \<Rightarrow> float64 \<Rightarrow> real" where
  "z_score c mean_cost (Finite s) = (if 0 < s then (c - mean_cost) / s else 0)"
| "z_score c mean_cost NaN = 0"
| "z_score c mean_cost PosInf = 0"
| "z_score c mean_cost NegInf = 0"

definition provider_anomalies ::
    "real \<Rightarrow> ((datetime \<times> string) \<times> real) list \<Rightarrow> string \<Rightarrow> anomaly list" where
  "provider_anomalies threshold dc p =
     (let provider_data = filter (\<lambda>row. snd (fst row) = p) dc;
          mean_cost = series_mean (map snd provider_data);
          std_cost = series_std (map snd provider_data)
      in concat (map (\<lambda>row.
           let z = z_score (snd row) mean_cost std_cost
           in if threshold < \<bar>z\<bar> then
                [\<lparr> date_str = strftime (fst (fst row)),
                   provider = snd (fst row),
                   observed_cost = snd row,
                   expected_range =
                     format_float 2 (fadd mean_cost (fmul (- threshold) std_cost)) @ '' - '' @
                     format_float 2 (fadd mean_cost (fmul threshold std_cost)),
                   severity = (if 3 < \<bar>z\<bar> then ''high'' else ''medium'') \<rparr>]
              else []) provider_data))"

definition detect_anomalies :: "dataframe \<Rightarrow> real \<Rightarrow> anomaly list" where
  "detect_anomalies df threshold =
     (if df = [] then []
      else sorted_reverse date_str
             (concat (map (provider_anomalies threshold (daily_costs df))
                        (unique (map (\<lambda>row. snd (fst row)) (daily_costs df))))))"

section \<open>generate_recommendations\<close>

definition spike_warning :: string where
  "spike_warning = ''Recent costs are 20% above average - investigate recent deployments''"

definition review_line :: "string \<times> real \<Rightarrow> string" where
  "review_line sc =
     ''Review '' @ fst sc @ '' usage - accounts for $'' @ format_fixed 2 (snd sc) @ '' in costs''"

definition service_lines :: "string tie_break \<Rightarrow> dataframe \<Rightarrow> string list" where
  "service_lines tie df =
     map review_line (take 3 (sort_values_desc tie (groupby_sum service df)))"

definition provider_lines :: "dataframe \<Rightarrow> string list" where
  "provider_lines df =
     (let provider_costs = groupby_sum cloud_provider df
      in if 1 < length provider_costs then
           (let max_provider = idxmax provider_costs
            in [''Consider workload distribution - '' @ max_provider @ '' accounts for '' @
                format_float 1
                  (fmul 100 (fdiv (the (map_of provider_costs max_provider))
                                  (series_sum (map snd provider_costs)))) @
                ''% of costs''])
         else [])"

definition recent_avg :: "dataframe \<Rightarrow> real" where
  "recent_avg df =
     (let daily_trend = groupby_sum date df
      in series_mean (map snd (drop (length daily_trend - 7) daily_trend)))"

definition overall_avg :: "dataframe \<Rightarrow> real" where
  "overall_avg df = series_mean (map snd (groupby_sum date df))"

text \<open>The literal \<^verbatim>\<open>1.2\<close> is the double nearest to it, a little below 1.2. The product and
  the two means are taken in exact arithmetic here; the code rounds each of them to a
  double.\<close>

definition float_1_2 :: real where
  "float_1_2 = 5404319552844595 / 4503599627370496"

definition trend_lines :: "dataframe \<Rightarrow> string list" where
  "trend_lines df =
     (if 7 < length (groupby_sum date df) then
        (if overall_avg df * float_1_2 < recent_avg df then [spike_warning] else [])
      else [])"

definition generate_recommendations :: "string tie_break \<Rightarrow> dataframe \<Rightarrow> string list" where
  "generate_recommendations tie df =
     (if df = [] then [''No data available for recommendations'']
      else service_lines tie df @ provider_lines df @ trend_lines df)"

section \<open>Example datasets\<close>

text \<open>The DataFrame row of \<^verbatim>\<open>CostData(service=s, cost=c, currency='USD', date=d,
  cloud_provider=p)\<close> for a day \<open>d\<close> of January 2024, at midnight.\<close>

definition cost_data :: "nat \<Rightarrow> string \<Rightarrow> string \<Rightarrow> real \<Rightarrow> cost_row" where
  "cost_data d p s c =
     \<lparr> date = (2024, 1, d, 0), cloud_provider = p, service = s, cost = c, currency = ''USD'' \<rparr>"

text \<open>Three providers at 100 a day for the ten days 2024-01-01 to 2024-01-10, except
  that AWS reports 500 on day 5.\<close>

definition scenario :: dataframe where
  "scenario =
     concat (map (\<lambda>d. [cost_data d ''AWS'' ''EC2'' (if d = 5 then 500 else 100),
                        cost_data d ''Azure'' ''Compute'' 100,
                        cost_data d ''GCP'' ''BigQuery'' 100])
               [1, 2, 3, 4, 5, 6, 7, 8, 9, 10])"





definition single :: dataframe where
  "single = [cost_data 1 ''AWS'' ''EC2'' 10]"

text \<open>Two providers with one outlier each, AWS on 2024-01-05 and GCP on 2024-01-10.\<close>

definition two_spikes :: dataframe where
  "two_spikes =
     [cost_data 5 ''AWS'' ''EC2'' 5, cost_data 6 ''AWS'' ''EC2'' 1, cost_data 7 ''AWS'' ''EC2'' 1,
      cost_data 8 ''AWS'' ''EC2'' 1, cost_data 7 ''GCP'' ''BigQuery'' 1,
      cost_data 8 ''GCP'' ''BigQuery'' 1, cost_data 9 ''GCP'' ''BigQuery'' 1,
      cost_data 10 ''GCP'' ''BigQuery'' 5]"

section \<open>Sums\<close>

lemma foldl_plus_sum_list: "foldl (+) a xs = a + sum_list (xs :: real list)"
  by (induction xs arbitrary: a) simp_all

lemma series_sum_sum_list: "series_sum xs = sum_list xs"
  by (simp add: series_sum_def foldl_plus_sum_list)

lemma sum_list_indicator:
  "distinct ks \<Longrightarrow> (\<Sum>k\<leftarrow>ks. if a = k then (v::real) else 0) = (if a \<in> set ks then v else 0)"
  by (induction ks) auto

text \<open>Splitting a list into the groups of a key and adding the group sums gives the
  sum of the whole list.\<close>

lemma sum_list_groups:
  "distinct ks \<Longrightarrow> key ` set xs \<subseteq> set ks \<Longrightarrow>
   (\<Sum>k\<leftarrow>ks. \<Sum>r\<leftarrow>filter (\<lambda>r. key r = k) xs. (f r :: real)) = (\<Sum>r\<leftarrow>xs. f r)"
proof (induction xs)
  case Nil
  then show ?case by simp
next
  case (Cons x xs)
  have "(\<Sum>k\<leftarrow>ks. \<Sum>r\<leftarrow>filter (\<lambda>r. key r = k) (x # xs). f r) =
        (\<Sum>k\<leftarrow>ks. (if key x = k then f x else 0) + (\<Sum>r\<leftarrow>filter (\<lambda>r. key r = k) xs. f r))"
    by (rule arg_cong [where f = sum_list]) (rule map_cong, simp_all)
  also have "\<dots> = (\<Sum>k\<leftarrow>ks. if key x = k then f x else 0) +
                   (\<Sum>k\<leftarrow>ks. \<Sum>r\<leftarrow>filter (\<lambda>r. key r = k) xs. f r)"
    by (simp add: sum_list_addf)
  also have "\<dots> = f x + (\<Sum>r\<leftarrow>xs. f r)"
    using Cons by (simp add: sum_list_indicator)
  finally show ?case by simp
qed

lemma groupby_sum_total: "(\<Sum>kv\<leftarrow>groupby_sum key df. snd kv) = (\<Sum>r\<leftarrow>df. cost r)"
proof -
  have "(\<Sum>kv\<leftarrow>groupby_sum key df. snd kv) =
        (\<Sum>k\<leftarrow>sort (remdups (map key df)). \<Sum>r\<leftarrow>filter (\<lambda>r. key r = k) df. cost r)"
    by (simp add: groupby_sum_def series_sum_sum_list comp_def)
  also have "\<dots> = (\<Sum>r\<leftarrow>df. cost r)"
    by (rule sum_list_groups) simp_all
  finally show ?thesis .
qed

lemma sum_cost_scenario: "(\<Sum>r\<leftarrow>scenario. cost r) = 3400"
  by (simp add: scenario_def cost_data_def)

section \<open>The summary\<close>

text \<open>
  Claim C1. For every non-empty dataset, \<^verbatim>\<open>get_cost_summary\<close> returns a summary whose
  \<^verbatim>\<open>total_cost\<close> is the sum of the cost of every record of the dataset.
\<close>

theorem total_cost_is_sum:
  "df \<noteq> [] \<Longrightarrow> \<exists>s. get_cost_summary tie df = Inr s \<and> total_cost s = (\<Sum>r\<leftarrow>df. cost r)"
  by (simp add: get_cost_summary_def series_sum_sum_list)

theorem total_cost_is_sum_witness:
  "scenario \<noteq> [] \<and> (\<forall>tie. \<exists>s. get_cost_summary tie scenario = Inr s \<and> total_cost s = 3400)"
proof -
  have ne: "scenario \<noteq> []"
    by (simp add: scenario_def)
  show ?thesis
    using ne total_cost_is_sum [OF ne] by (simp add: sum_cost_scenario)
qed

text \<open>
  Claim C4. On the empty dataset \<^verbatim>\<open>get_cost_summary\<close> returns the no-data marker (a value,
  not an exception), \<^verbatim>\<open>detect_anomalies\<close> returns the empty sequence for every threshold,
  and \<^verbatim>\<open>generate_recommendations\<close> returns exactly one message, the no-data sentinel.
\<close>

theorem empty_dataset_results:
  "get_cost_summary tie [] = Inl ''No cost data available'' \<and>
   detect_anomalies [] threshold = [] \<and>
   generate_recommendations tie [] = [''No data available for recommendations'']"
  by (simp add: get_cost_summary_def detect_anomalies_def generate_recommendations_def)

text \<open>
  Claim C6, as stated for every dataset, fails at the empty one: the value returned
  there is the no-data marker, which has neither a \<^verbatim>\<open>cost_by_provider\<close> mapping nor a
  \<^verbatim>\<open>total_cost\<close>.
\<close>

theorem provider_sum_empty_counterexample: "\<forall>tie. isl (get_cost_summary tie [])"
  by (simp add: get_cost_summary_def)

text \<open>
  Claim C6, amended. For every non-empty dataset, \<^verbatim>\<open>get_cost_summary\<close> returns a summary
  in which the values of \<^verbatim>\<open>cost_by_provider\<close> add up to \<^verbatim>\<open>total_cost\<close>.
\<close>

theorem provider_costs_add_up:
  "df \<noteq> [] \<Longrightarrow>
   \<exists>s. get_cost_summary tie df = Inr s \<and>
       series_sum (map snd (cost_by_provider s)) = total_cost s"
  by (simp add: get_cost_summary_def series_sum_sum_list groupby_sum_total)

theorem provider_costs_add_up_witness:
  "[cost_data 1 ''AWS'' ''EC2'' 7, cost_data 1 ''GCP'' ''BigQuery'' 5, cost_data 2 ''AWS'' ''S3'' 1] \<noteq> [] \<and>
   (\<forall>tie. \<exists>s. get_cost_summary tie
          [cost_data 1 ''AWS'' ''EC2'' 7, cost_data 1 ''GCP'' ''BigQuery'' 5, cost_data 2 ''AWS'' ''S3'' 1]
          = Inr s \<and>
        series_sum (map snd (cost_by_provider s)) = total_cost s)"
  using provider_costs_add_up
    [of "[cost_data 1 ''AWS'' ''EC2'' 7, cost_data 1 ''GCP'' ''BigQuery'' 5, cost_data 2 ''AWS'' ''S3'' 1]"]
  by simp

section \<open>The service ranking\<close>

lemma groupby_sum_keys: "map fst (groupby_sum key df) = sort (remdups (map key df))"
  by (simp add: groupby_sum_def comp_def)

lemma groupby_sum_strict: "sorted_wrt (\<lambda>a b. fst a < fst b) (groupby_sum key df)"
proof -
  have "sorted_wrt (<) (map fst (groupby_sum key df))"
    unfolding groupby_sum_keys by (simp add: strict_sorted_iff)
  then show ?thesis
    by (simp add: sorted_wrt_map)
qed















section \<open>The recommendations\<close>












section \<open>Rendering of numbers and dates\<close>

lemma digits_small: "n < 10 \<Longrightarrow> digits n = [digit_char n]"
  by (simp add: digits.simps)

lemma digits_large: "10 \<le> n \<Longrightarrow> digits n = digits (n div 10) @ [digit_char (n mod 10)]"
  by (subst digits.simps) simp

lemmas render_simps = zfill_def digits_small digits_large digit_char_def

lemma round_half_even_between:
  assumes "real n \<le> y" and "y < real n + 1 / 2"
  shows "round_half_even y = n"
proof -
  have "\<lfloor>y\<rfloor> = int n"
    using assms by (intro floor_unique) simp_all
  then show ?thesis
    using assms by (simp add: round_half_even_def)
qed

section \<open>Anomaly detection\<close>

lemma set_unique: "set (unique xs) = set xs"
  by (induction xs rule: unique.induct) auto

lemma set_sorted_reverse: "set (sorted_reverse f xs) = set xs"
  by (simp add: sorted_reverse_def)

lemma sorted_reverse_single: "sorted_reverse f [a] = [a]"
  by (simp add: sorted_reverse_def)

lemma sorted_reverse_two:
  "f a < f b \<Longrightarrow> sorted_reverse f [a, b] = [b, a]"
  by (auto simp: sorted_reverse_def)

lemma concat_map_if: "concat (map (\<lambda>x. if P x then [f x] else []) xs) = map f (filter P xs)"
  by (induction xs) simp_all

text \<open>The loop over a provider's rows appends one anomaly for every row beyond the
  threshold, in the order of the rows.\<close>

lemma provider_anomalies_filter:
  "provider_anomalies threshold dc p =
     map (\<lambda>row. \<lparr> date_str = strftime (fst (fst row)), provider = snd (fst row),
                   observed_cost = snd row,
                   expected_range =
                     format_float 2 (fadd (series_mean (map snd (filter (\<lambda>row. snd (fst row) = p) dc)))
                        (fmul (- threshold) (series_std (map snd (filter (\<lambda>row. snd (fst row) = p) dc))))) @ '' - '' @
                     format_float 2 (fadd (series_mean (map snd (filter (\<lambda>row. snd (fst row) = p) dc)))
                        (fmul threshold (series_std (map snd (filter (\<lambda>row. snd (fst row) = p) dc))))),
                   severity = (if 3 < \<bar>z_score (snd row) (series_mean (map snd (filter (\<lambda>row. snd (fst row) = p) dc)))
                                         (series_std (map snd (filter (\<lambda>row. snd (fst row) = p) dc)))\<bar>
                               then ''high'' else ''medium'') \<rparr>)
       (filter (\<lambda>row. threshold < \<bar>z_score (snd row) (series_mean (map snd (filter (\<lambda>row. snd (fst row) = p) dc)))
                                         (series_std (map snd (filter (\<lambda>row. snd (fst row) = p) dc)))\<bar>)
          (filter (\<lambda>row. snd (fst row) = p) dc))"
  unfolding provider_anomalies_def Let_def
  by (simp only: concat_map_if)

lemma provider_anomalies_origin:
  assumes "a \<in> set (provider_anomalies threshold dc p)"
  shows "\<exists>row\<in>set dc. snd (fst row) = p \<and> provider a = p \<and>
           date_str a = strftime (fst (fst row)) \<and> observed_cost a = snd row \<and>
           threshold < \<bar>z_score (snd row)
              (series_mean (map snd (filter (\<lambda>row. snd (fst row) = p) dc)))
              (series_std (map snd (filter (\<lambda>row. snd (fst row) = p) dc)))\<bar>"
  using assms by (auto simp: provider_anomalies_def Let_def split: if_splits)

lemma detect_anomalies_origin:
  assumes "a \<in> set (detect_anomalies df threshold)"
  shows "\<exists>row\<in>set (daily_costs df). provider a = snd (fst row) \<and>
           date_str a = strftime (fst (fst row)) \<and> observed_cost a = snd row \<and>
           threshold < \<bar>z_score (snd row)
              (series_mean (map snd (filter (\<lambda>row. snd (fst row) = provider a) (daily_costs df))))
              (series_std (map snd (filter (\<lambda>row. snd (fst row) = provider a) (daily_costs df))))\<bar>"
proof -
  from assms obtain p where "a \<in> set (provider_anomalies threshold (daily_costs df) p)"
    by (auto simp: detect_anomalies_def set_sorted_reverse split: if_splits)
  from provider_anomalies_origin [OF this] show ?thesis by auto
qed

lemma daily_costs_key:
  assumes "row \<in> set (daily_costs df)"
  shows "\<exists>r\<in>set df. fst row = (date r, cloud_provider r)"
proof -
  have "fst row \<in> set (map fst (daily_costs df))"
    using assms by simp
  then show ?thesis
    unfolding daily_costs_def groupby_sum_keys by auto
qed


lemma series_mean_constant:
  assumes "xs \<noteq> []" and "\<forall>x\<in>set xs. x = c"
  shows "series_mean xs = c"
proof -
  have "xs = replicate (length xs) c"
    using assms(2) by (simp add: replicate_length_same)
  then have "sum_list xs = real (length xs) * c"
    by (metis sum_list_replicate)
  with assms(1) show ?thesis
    by (simp add: series_mean_def series_sum_sum_list)
qed

lemma z_score_constant_series:
  assumes "\<forall>x\<in>set xs. x = c"
  shows "z_score y m (series_std xs) = 0"
proof (cases "length xs \<le> 1")
  case True
  then show ?thesis by (simp add: series_std_def)
next
  case False
  then have ne: "xs \<noteq> []" by auto
  have "map (\<lambda>x. (series_mean xs - x)\<^sup>2) xs = map (\<lambda>x. 0) xs"
    using assms series_mean_constant [OF ne assms] by (intro map_cong) auto
  then have "series_sum (map (\<lambda>x. (series_mean xs - x)\<^sup>2) xs) = series_sum (map (\<lambda>x. 0) xs)"
    by (rule arg_cong)
  then have "series_sum (map (\<lambda>x. (series_mean xs - x)\<^sup>2) xs) = 0"
    by (simp add: series_sum_sum_list)
  with False show ?thesis
    by (simp add: series_std_def)
qed

lemma provider_anomalies_constant:
  assumes "0 \<le> threshold" and "\<forall>x\<in>set (map snd (filter (\<lambda>row. snd (fst row) = p) dc)). x = c"
  shows "provider_anomalies threshold dc p = []"
proof (rule ccontr)
  assume "provider_anomalies threshold dc p \<noteq> []"
  then obtain a where "a \<in> set (provider_anomalies threshold dc p)"
    by (cases "provider_anomalies threshold dc p") auto
  from provider_anomalies_origin [OF this] z_score_constant_series [OF assms(2)]
  have "threshold < 0" by auto
  with assms(1) show False by simp
qed

lemma provider_rows_single_date:
  assumes "date ` {r \<in> set df. cloud_provider r = p} = {d}"
  shows "length (filter (\<lambda>row. snd (fst row) = p) (daily_costs df)) = 1"
proof -
  let ?pd = "filter (\<lambda>row. snd (fst row) = p) (daily_costs df)"
  have keys: "map fst ?pd = filter (\<lambda>k. snd k = p) (sort (remdups (map (\<lambda>r. (date r, cloud_provider r)) df)))"
    unfolding daily_costs_def groupby_sum_keys [symmetric] by (simp add: filter_map comp_def)
  have dist: "distinct (map fst ?pd)"
    unfolding keys by simp
  have "set (map fst ?pd) = (\<lambda>x. (x, p)) ` date ` {r \<in> set df. cloud_provider r = p}"
    unfolding keys by auto
  then have "set (map fst ?pd) = {(d, p)}"
    unfolding assms by simp
  then have "card (set (map fst ?pd)) = 1"
    by simp
  with dist have "length (map fst ?pd) = 1"
    by (simp only: distinct_card)
  then show ?thesis by simp
qed

subsection \<open>The example scenario\<close>

lemma daily_costs_scenario:
  "daily_costs scenario =
     [(((2024, 1, 1, 0), ''AWS''), 100), (((2024, 1, 1, 0), ''Azure''), 100), (((2024, 1, 1, 0), ''GCP''), 100),
      (((2024, 1, 2, 0), ''AWS''), 100), (((2024, 1, 2, 0), ''Azure''), 100), (((2024, 1, 2, 0), ''GCP''), 100),
      (((2024, 1, 3, 0), ''AWS''), 100), (((2024, 1, 3, 0), ''Azure''), 100), (((2024, 1, 3, 0), ''GCP''), 100),
      (((2024, 1, 4, 0), ''AWS''), 100), (((2024, 1, 4, 0), ''Azure''), 100), (((2024, 1, 4, 0), ''GCP''), 100),
      (((2024, 1, 5, 0), ''AWS''), 500), (((2024, 1, 5, 0), ''Azure''), 100), (((2024, 1, 5, 0), ''GCP''), 100),
      (((2024, 1, 6, 0), ''AWS''), 100), (((2024, 1, 6, 0), ''Azure''), 100), (((2024, 1, 6, 0), ''GCP''), 100),
      (((2024, 1, 7, 0), ''AWS''), 100), (((2024, 1, 7, 0), ''Azure''), 100), (((2024, 1, 7, 0), ''GCP''), 100),
      (((2024, 1, 8, 0), ''AWS''), 100), (((2024, 1, 8, 0), ''Azure''), 100), (((2024, 1, 8, 0), ''GCP''), 100),
      (((2024, 1, 9, 0), ''AWS''), 100), (((2024, 1, 9, 0), ''Azure''), 100), (((2024, 1, 9, 0), ''GCP''), 100),
      (((2024, 1, 10, 0), ''AWS''), 100), (((2024, 1, 10, 0), ''Azure''), 100), (((2024, 1, 10, 0), ''GCP''), 100)]"
  by (simp add: daily_costs_def groupby_sum_def scenario_def cost_data_def series_sum_def)

lemma aws_series:
  "map snd (filter (\<lambda>row. snd (fst row) = ''AWS'') (daily_costs scenario)) =
     [100, 100, 100, 100, 500, 100, 100, 100, 100, 100]"
  by (simp add: daily_costs_scenario)

lemma aws_mean: "series_mean [100, 100, 100, 100, 500, 100, 100, 100, 100, 100] = 140"
  by (simp add: series_mean_def series_sum_def)

lemma aws_std: "series_std [100, 100, 100, 100, 500, 100, 100, 100, 100, 100] = Finite (sqrt 16000)"
  by (simp add: series_std_def aws_mean) (simp add: series_sum_def)

lemma sqrt_16000_bounds: "120 \<le> sqrt 16000" "sqrt 16000 < 180"
proof -
  have "sqrt (120\<^sup>2) \<le> sqrt 16000"
    by (subst real_sqrt_le_iff) simp
  then show "120 \<le> sqrt 16000" by simp
  have "sqrt 16000 < sqrt (180\<^sup>2)"
    by (subst real_sqrt_less_iff) simp
  then show "sqrt 16000 < 180" by simp
qed

lemma z_score_aws: "z_score c 140 (Finite (sqrt 16000)) = (c - 140) / sqrt 16000"
  by simp

lemma z_score_aws_outlier:
  "2 < \<bar>z_score 500 140 (Finite (sqrt 16000))\<bar>" "\<not> 3 < \<bar>z_score 500 140 (Finite (sqrt 16000))\<bar>"
proof -
  have pos: "0 < sqrt 16000" by simp
  have z: "\<bar>z_score 500 140 (Finite (sqrt 16000))\<bar> = 360 / sqrt 16000"
    unfolding z_score_aws by simp
  show "2 < \<bar>z_score 500 140 (Finite (sqrt 16000))\<bar>"
    unfolding z using sqrt_16000_bounds(2) pos by (simp add: pos_less_divide_eq)
  show "\<not> 3 < \<bar>z_score 500 140 (Finite (sqrt 16000))\<bar>"
    unfolding z using sqrt_16000_bounds(1) pos by (simp add: pos_less_divide_eq)
qed

lemma z_score_aws_regular: "\<not> 2 < \<bar>z_score 100 140 (Finite (sqrt 16000))\<bar>"
proof -
  have pos: "0 < sqrt 16000" by simp
  have z: "\<bar>z_score 100 140 (Finite (sqrt 16000))\<bar> = 40 / sqrt 16000"
    unfolding z_score_aws by simp
  show ?thesis
    unfolding z using sqrt_16000_bounds(1) pos by (simp add: pos_less_divide_eq)
qed

lemma sqrt_16000_digits: "126.49 \<le> sqrt 16000" "sqrt 16000 < 126.4925"
proof -
  have "sqrt ((126.49)\<^sup>2) \<le> sqrt 16000"
    by (subst real_sqrt_le_iff) (simp add: power2_eq_square)
  then show "126.49 \<le> sqrt 16000" by simp
  have "sqrt 16000 < sqrt ((126.4925)\<^sup>2)"
    by (subst real_sqrt_less_iff) (simp add: power2_eq_square)
  then show "sqrt 16000 < 126.4925" by simp
qed

lemma expected_range_low:
  "format_float 2 (fadd 140 (fmul (- 2) (Finite (sqrt 16000)))) = ''-112.98''"
proof -
  have "round_half_even (\<bar>140 - 2 * sqrt 16000\<bar> * 10\<^sup>2) = 11298"
    using sqrt_16000_digits by (intro round_half_even_between) simp_all
  moreover have "140 - 2 * sqrt 16000 < 0"
    using sqrt_16000_digits by simp
  ultimately show ?thesis
    by (simp add: format_fixed_def render_simps)
qed

lemma expected_range_high:
  "format_float 2 (fadd 140 (fmul 2 (Finite (sqrt 16000)))) = ''392.98''"
proof -
  have "round_half_even (\<bar>140 + 2 * sqrt 16000\<bar> * 10\<^sup>2) = 39298"
    using sqrt_16000_digits by (intro round_half_even_between) simp_all
  moreover have "\<not> 140 + 2 * sqrt 16000 < 0"
    using sqrt_16000_digits by simp
  ultimately show ?thesis
    by (simp add: format_fixed_def render_simps)
qed

lemma aws_anomalies:
  "provider_anomalies 2 (daily_costs scenario) ''AWS'' =
     [\<lparr> date_str = ''2024-01-05'', provider = ''AWS'', observed_cost = 500,
        expected_range = ''-112.98 - 392.98'', severity = ''medium'' \<rparr>]"
  unfolding provider_anomalies_filter aws_series aws_mean aws_std expected_range_low
    expected_range_high
  by (simp add: daily_costs_scenario z_score_aws_outlier z_score_aws_regular render_simps
      del: z_score.simps)

lemma azure_anomalies: "provider_anomalies 2 (daily_costs scenario) ''Azure'' = []"
  by (rule provider_anomalies_constant [where c = 100]) (simp_all add: daily_costs_scenario)

lemma gcp_anomalies: "provider_anomalies 2 (daily_costs scenario) ''GCP'' = []"
  by (rule provider_anomalies_constant [where c = 100]) (simp_all add: daily_costs_scenario)

lemma scenario_providers:
  "unique (map (\<lambda>row. snd (fst row)) (daily_costs scenario)) = [''AWS'', ''Azure'', ''GCP'']"
  by (simp add: daily_costs_scenario)

lemma detect_anomalies_scenario:
  "detect_anomalies scenario 2 =
     [\<lparr> date_str = ''2024-01-05'', provider = ''AWS'', observed_cost = 500,
        expected_range = ''-112.98 - 392.98'', severity = ''medium'' \<rparr>]"
proof -
  have "scenario \<noteq> []"
    by (simp add: scenario_def)
  then have "detect_anomalies scenario 2 =
      sorted_reverse date_str (concat (map (provider_anomalies 2 (daily_costs scenario))
        [''AWS'', ''Azure'', ''GCP'']))"
    by (simp only: detect_anomalies_def scenario_providers if_False)
  also have "\<dots> = sorted_reverse date_str
     [\<lparr> date_str = ''2024-01-05'', provider = ''AWS'', observed_cost = 500,
        expected_range = ''-112.98 - 392.98'', severity = ''medium'' \<rparr>]"
    by (simp only: list.map concat.simps aws_anomalies azure_anomalies gcp_anomalies append_Nil2)
  finally show ?thesis
    by (simp only: sorted_reverse_single)
qed

text \<open>
  Claim C2, as stated, fails: in the scenario the only record flagged at threshold 2.0 is
  AWS on day 5, and its severity is \<^verbatim>\<open>medium\<close>, not \<^verbatim>\<open>high\<close>.
\<close>

theorem scenario_severity_counterexample:
  "map severity (detect_anomalies scenario 2) = [''medium'']"
  by (simp add: detect_anomalies_scenario)

text \<open>
  Claim C2, amended. In the scenario \<^verbatim>\<open>get_cost_summary\<close> returns \<^verbatim>\<open>total_cost\<close> 3400, and
  \<^verbatim>\<open>detect_anomalies\<close> with threshold 2.0 returns exactly one anomaly, AWS on 2024-01-05
  with cost 500, whose z-score against the mean and the sample standard deviation of the
  ten AWS days is greater than 2 in absolute value but not greater than 3 (it is
  \<open>360 / sqrt 16000\<close>, about 2.85), so that its severity is \<^verbatim>\<open>medium\<close>.
\<close>

theorem scenario_outlier_flagged_medium:
  "map_sum id total_cost (get_cost_summary tie scenario) = Inr 3400 \<and>
   detect_anomalies scenario 2 =
     [\<lparr> date_str = ''2024-01-05'', provider = ''AWS'', observed_cost = 500,
        expected_range = ''-112.98 - 392.98'', severity = ''medium'' \<rparr>] \<and>
   2 < \<bar>z_score 500
          (series_mean (map snd (filter (\<lambda>row. snd (fst row) = ''AWS'') (daily_costs scenario))))
          (series_std (map snd (filter (\<lambda>row. snd (fst row) = ''AWS'') (daily_costs scenario))))\<bar> \<and>
   \<bar>z_score 500
          (series_mean (map snd (filter (\<lambda>row. snd (fst row) = ''AWS'') (daily_costs scenario))))
          (series_std (map snd (filter (\<lambda>row. snd (fst row) = ''AWS'') (daily_costs scenario))))\<bar> \<le> 3"
proof -
  have "scenario \<noteq> []"
    by (simp add: scenario_def)
  then have "map_sum id total_cost (get_cost_summary tie scenario) = Inr 3400"
    by (simp add: get_cost_summary_def series_sum_sum_list sum_cost_scenario)
  moreover note detect_anomalies_scenario
  moreover have "2 < \<bar>z_score 500 140 (Finite (sqrt 16000))\<bar>"
    by (rule z_score_aws_outlier)
  moreover have "\<bar>z_score 500 140 (Finite (sqrt 16000))\<bar> \<le> 3"
    using z_score_aws_outlier(2) by (simp only: not_less)
  ultimately show ?thesis
    unfolding aws_series aws_mean aws_std by (intro conjI)
qed

subsection \<open>Providers without variance\<close>



lemma daily_costs_single: "daily_costs single = [(((2024, 1, 1, 0), ''AWS''), 10)]"
  by (simp add: daily_costs_def groupby_sum_def single_def cost_data_def series_sum_def)

lemma single_dates: "date ` {r \<in> set single. cloud_provider r = ''AWS''} = {(2024, 1, 1, 0)}"
  by (auto simp: single_def cost_data_def)




text \<open>
  Claim C10, as stated for every threshold, fails for a negative one: AWS has records on
  one date only in \<open>single\<close>, the standard deviation is NaN and the z-score 0, and with
  threshold -1 that day is reported, with the range \<^verbatim>\<open>nan - nan\<close>.
\<close>

theorem single_date_negative_threshold_counterexample:
  "date ` {r \<in> set single. cloud_provider r = ''AWS''} = {(2024, 1, 1, 0)} \<and>
   detect_anomalies single (- 1) =
     [\<lparr> date_str = ''2024-01-01'', provider = ''AWS'', observed_cost = 10,
        expected_range = ''nan - nan'', severity = ''medium'' \<rparr>]"
proof -
  have ne: "single \<noteq> []"
    by (simp add: single_def)
  have providers: "unique (map (\<lambda>row. snd (fst row)) (daily_costs single)) = [''AWS'']"
    by (simp add: daily_costs_single)
  have "provider_anomalies (- 1) (daily_costs single) ''AWS'' =
     [\<lparr> date_str = ''2024-01-01'', provider = ''AWS'', observed_cost = 10,
        expected_range = ''nan - nan'', severity = ''medium'' \<rparr>]"
    by (simp add: provider_anomalies_filter daily_costs_single series_std_def render_simps)
  then have "detect_anomalies single (- 1) =
     [\<lparr> date_str = ''2024-01-01'', provider = ''AWS'', observed_cost = 10,
        expected_range = ''nan - nan'', severity = ''medium'' \<rparr>]"
    using ne
    by (simp only: detect_anomalies_def providers if_False list.map concat.simps append_Nil2
        sorted_reverse_single)
  with single_dates show ?thesis
    by (intro conjI)
qed

text \<open>
  Claim C10, amended. If provider \<open>p\<close> has records on exactly one date, the sample standard
  deviation of its one-element series of daily totals is NaN, and for every threshold
  that is not negative \<^verbatim>\<open>detect_anomalies\<close> (a total function: it raises nothing) reports
  no anomaly for \<open>p\<close>.
\<close>

theorem single_date_provider_no_anomalies:
  assumes "date ` {r \<in> set df. cloud_provider r = p} = {d}" and "0 \<le> threshold"
  shows "series_std (map snd (filter (\<lambda>row. snd (fst row) = p) (daily_costs df))) = NaN \<and>
         (\<forall>a\<in>set (detect_anomalies df threshold). provider a \<noteq> p)"
proof -
  let ?series = "map snd (filter (\<lambda>row. snd (fst row) = p) (daily_costs df))"
  have nan: "series_std ?series = NaN"
    using provider_rows_single_date [OF assms(1)] by (simp add: series_std_def)
  have "provider a \<noteq> p" if a: "a \<in> set (detect_anomalies df threshold)" for a
  proof
    assume "provider a = p"
    with detect_anomalies_origin [OF a] nan have "threshold < 0" by auto
    with assms(2) show False by simp
  qed
  with nan show ?thesis by blast
qed

theorem single_date_provider_no_anomalies_witness:
  "date ` {r \<in> set single. cloud_provider r = ''AWS''} = {(2024, 1, 1, 0)} \<and> (0::real) \<le> 2 \<and>
   series_std (map snd (filter (\<lambda>row. snd (fst row) = ''AWS'') (daily_costs single))) = NaN \<and>
   filter (\<lambda>a. provider a = ''AWS'') (detect_anomalies single 2) = []"
proof -
  have t: "(0::real) \<le> 2" by simp
  from single_date_provider_no_anomalies [OF single_dates t]
  have "series_std (map snd (filter (\<lambda>row. snd (fst row) = ''AWS'') (daily_costs single))) = NaN"
    and "filter (\<lambda>a. provider a = ''AWS'') (detect_anomalies single 2) = []"
    by (simp_all add: filter_empty_conv)
  with single_dates t show ?thesis
    by (intro conjI)
qed

section \<open>The order of the anomalies\<close>

text \<open>Dates are rendered with a fixed number of digits, so that the date strings order
  like the calendar days.\<close>

lemma below_ten:
  "n < 10 \<Longrightarrow> n \<in> {9, 8, 7, 6, 5, 4, 3, 2, 1, 0 :: nat}"
  by (simp only: insert_iff empty_iff) arith

lemma of_char_digit_char: "n < 10 \<Longrightarrow> of_char (digit_char n) = 48 + n"
  by (drule below_ten) (auto simp: digit_char_def)

lemma digit_char_less: "a < 10 \<Longrightarrow> b < 10 \<Longrightarrow> a < b \<Longrightarrow> digit_char a < digit_char b"
  by (simp add: less_char_def of_char_digit_char)

lemma less_append_same_length:
  "length xs = length ys \<Longrightarrow> xs < ys \<Longrightarrow> xs @ u < ys @ (v :: 'a::linorder list)"
  by (induction xs ys rule: list_induct2) auto

lemma less_append_left: "u < v \<Longrightarrow> xs @ u < xs @ (v :: 'a::linorder list)"
  by (induction xs) auto

lemma zfill_digits_Suc:
  assumes "1 \<le> w"
  shows "zfill (Suc w) (digits n) = zfill w (digits (n div 10)) @ [digit_char (n mod 10)]"
proof (cases "n < 10")
  case True
  have "replicate (w - 1) (CHR ''0'') @ [CHR ''0''] = replicate w (CHR ''0'')"
    using assms by (metis Suc_diff_1 less_eq_Suc_le replicate_append_same replicate_Suc One_nat_def)
  with True show ?thesis
    by (simp add: zfill_def digits_small digit_char_def)
next
  case False
  then show ?thesis
    by (simp add: zfill_def digits_large Suc_diff_le)
qed

lemma zfill_digits_1: "n < 10 \<Longrightarrow> zfill (Suc 0) (digits n) = [digit_char n]"
  by (simp add: zfill_def digits_small)

lemma length_zfill_digits: "1 \<le> w \<Longrightarrow> n < 10 ^ w \<Longrightarrow> length (zfill w (digits n)) = w"
proof (induction w arbitrary: n rule: nat_induct_at_least)
  case base
  then show ?case by (simp add: zfill_digits_1)
next
  case (Suc w)
  from Suc.prems have "n div 10 < 10 ^ w"
    by (simp add: less_mult_imp_div_less)
  with Suc show ?case
    by (simp add: zfill_digits_Suc)
qed

lemma zfill_digits_less:
  "1 \<le> w \<Longrightarrow> a < 10 ^ w \<Longrightarrow> b < 10 ^ w \<Longrightarrow> a < b \<Longrightarrow> zfill w (digits a) < zfill w (digits b)"
proof (induction w arbitrary: a b rule: nat_induct_at_least)
  case base
  then show ?case by (simp add: zfill_digits_1 digit_char_less)
next
  case (Suc w)
  have a: "a div 10 < 10 ^ w" and b: "b div 10 < 10 ^ w"
    using Suc.prems by (simp_all add: less_mult_imp_div_less)
  show ?case
  proof (cases "a div 10 = b div 10")
    case True
    with \<open>a < b\<close> have "a mod 10 < b mod 10"
      by (metis div_mult_mod_eq nat_add_left_cancel_less)
    then have "digit_char (a mod 10) < digit_char (b mod 10)"
      by (simp add: digit_char_less)
    with True Suc.hyps show ?thesis
      by (simp add: zfill_digits_Suc less_append_left)
  next
    case False
    with \<open>a < b\<close> have "a div 10 < b div 10"
      by (meson div_le_mono le_neq_implies_less less_imp_le_nat)
    then have "zfill w (digits (a div 10)) < zfill w (digits (b div 10))"
      using Suc.IH a b by blast
    moreover have "length (zfill w (digits (a div 10))) = length (zfill w (digits (b div 10)))"
      using a b Suc.hyps by (simp add: length_zfill_digits)
    ultimately show ?thesis
      using Suc.hyps by (simp add: zfill_digits_Suc less_append_same_length)
  qed
qed

lemma strftime_less:
  assumes "valid_date d1" and "valid_date d2" and "calendar_day d1 < calendar_day d2"
  shows "strftime d1 < strftime d2"
proof -
  obtain y1 m1 e1 t1 where d1: "d1 = (y1, m1, e1, t1)" by (cases d1) auto
  obtain y2 m2 e2 t2 where d2: "d2 = (y2, m2, e2, t2)" by (cases d2) auto
  have y: "y1 < 10 ^ 4" "y2 < 10 ^ 4" and m: "m1 < 10 ^ 2" "m2 < 10 ^ 2" and e: "e1 < 10 ^ 2" "e2 < 10 ^ 2"
    using assms(1,2) by (simp_all add: d1 d2)
  have ly: "length (zfill 4 (digits y1)) = length (zfill 4 (digits y2))"
    using y by (simp add: length_zfill_digits)
  have lm: "length (zfill 2 (digits m1)) = length (zfill 2 (digits m2))"
    using m by (simp add: length_zfill_digits)
  from assms(3) consider "y1 < y2" | "y1 = y2" "m1 < m2" | "y1 = y2" "m1 = m2" "e1 < e2"
    by (auto simp: d1 d2 less_prod_def')
  then show ?thesis
  proof cases
    case 1
    then have "zfill 4 (digits y1) < zfill 4 (digits y2)"
      using y by (intro zfill_digits_less) simp_all
    with ly show ?thesis
      unfolding d1 d2 strftime.simps by (rule less_append_same_length)
  next
    case 2
    then have "zfill 2 (digits m1) < zfill 2 (digits m2)"
      using m by (intro zfill_digits_less) simp_all
    with lm have "zfill 2 (digits m1) @ ''-'' @ zfill 2 (digits e1) < zfill 2 (digits m2) @ ''-'' @ zfill 2 (digits e2)"
      by (rule less_append_same_length)
    then show ?thesis
      unfolding d1 d2 strftime.simps 2(1) by (intro less_append_left)
  next
    case 3
    then have "zfill 2 (digits e1) < zfill 2 (digits e2)"
      using e by (intro zfill_digits_less) simp_all
    then show ?thesis
      unfolding d1 d2 strftime.simps 3(1,2) by (intro less_append_left)
  qed
qed

lemma strftime_le_calendar_day:
  assumes "valid_date d1" and "valid_date d2" and "strftime d1 \<le> strftime d2"
  shows "calendar_day d1 \<le> calendar_day d2"
proof (rule ccontr)
  assume "\<not> calendar_day d1 \<le> calendar_day d2"
  then have "calendar_day d2 < calendar_day d1" by simp
  from strftime_less [OF assms(2,1) this] assms(3) show False by simp
qed

lemma sorted_reverse_descending: "sorted (rev (map f (sorted_reverse f xs)))"
  by (simp add: sorted_reverse_def rev_map [symmetric])

lemma choose_preimages:
  "\<forall>a\<in>set xs. \<exists>d. P d \<and> f a = g d \<Longrightarrow> \<exists>ds. (\<forall>d\<in>set ds. P d) \<and> map f xs = map g ds"
proof (induction xs)
  case Nil
  then show ?case by simp
next
  case (Cons x xs)
  from Cons.prems obtain d where d: "P d" "f x = g d"
    by auto
  from Cons obtain ds where ds: "\<forall>d\<in>set ds. P d" "map f xs = map g ds"
    by auto
  from d ds have "(\<forall>e\<in>set (d # ds). P e) \<and> map f (x # xs) = map g (d # ds)"
    by simp
  then show ?case ..
qed

lemma anomaly_dates:
  assumes "a \<in> set (detect_anomalies df threshold)"
  shows "\<exists>d. d \<in> date ` set df \<and> date_str a = strftime d"
proof -
  from detect_anomalies_origin [OF assms] obtain row where
    row: "row \<in> set (daily_costs df)" and str: "date_str a = strftime (fst (fst row))"
    by blast
  from daily_costs_key [OF row] obtain r where "r \<in> set df" and "fst row = (date r, cloud_provider r)"
    by blast
  with str show ?thesis
    by auto
qed

text \<open>
  Claim C5. For every dataset whose dates have four-digit years, the sequence returned by
  \<^verbatim>\<open>detect_anomalies\<close> is in descending order of the calendar day, the most recent anomaly
  first: the date strings of the anomalies are the renderings of dates of the dataset
  whose calendar days descend along the sequence. In \<open>two_spikes\<close>, with anomalies on
  2024-01-10 and 2024-01-05, the entry of 2024-01-10 comes first.
\<close>

theorem anomalies_most_recent_first:
  assumes "\<forall>r\<in>set df. valid_date (date r)"
  shows "\<exists>ds. set ds \<subseteq> date ` set df \<and>
           map date_str (detect_anomalies df threshold) = map strftime ds \<and>
           sorted (rev (map calendar_day ds))"
proof -
  let ?out = "detect_anomalies df threshold"
  have "\<forall>a\<in>set ?out. \<exists>d. d \<in> date ` set df \<and> date_str a = strftime d"
    by (intro ballI anomaly_dates)
  from choose_preimages [OF this] obtain ds
    where sub: "\<forall>d\<in>set ds. d \<in> date ` set df" and strs: "map date_str ?out = map strftime ds"
    by blast
  have valid: "valid_date d" if "d \<in> set ds" for d
  proof -
    from sub that obtain r where "r \<in> set df" and "d = date r"
      by blast
    with assms show ?thesis
      by simp
  qed
  have "sorted (rev (map date_str ?out))"
    by (simp add: detect_anomalies_def sorted_reverse_descending)
  then have "sorted (rev (map strftime ds))"
    by (simp only: strs)
  then have "sorted_wrt (\<lambda>x y. strftime y \<le> strftime x) ds"
    by (simp only: sorted_wrt_rev sorted_wrt_map)
  then have "sorted_wrt (\<lambda>x y. calendar_day y \<le> calendar_day x) ds"
  proof (rule sorted_wrt_mono_rel [rotated])
    fix x y assume "x \<in> set ds" and "y \<in> set ds" and le: "strftime y \<le> strftime x"
    then have "valid_date y" and "valid_date x"
      by (simp_all add: valid)
    then show "calendar_day y \<le> calendar_day x"
      using le by (rule strftime_le_calendar_day)
  qed
  then have "sorted (rev (map calendar_day ds))"
    by (simp only: sorted_wrt_rev sorted_wrt_map)
  moreover have "set ds \<subseteq> date ` set df"
  proof
    fix d assume "d \<in> set ds"
    with sub show "d \<in> date ` set df" ..
  qed
  ultimately show ?thesis
    using strs by (intro exI [of _ ds] conjI)
qed

lemma daily_costs_two_spikes:
  "daily_costs two_spikes =
     [(((2024, 1, 5, 0), ''AWS''), 5), (((2024, 1, 6, 0), ''AWS''), 1),
      (((2024, 1, 7, 0), ''AWS''), 1), (((2024, 1, 7, 0), ''GCP''), 1),
      (((2024, 1, 8, 0), ''AWS''), 1), (((2024, 1, 8, 0), ''GCP''), 1),
      (((2024, 1, 9, 0), ''GCP''), 1), (((2024, 1, 10, 0), ''GCP''), 5)]"
  by (simp add: daily_costs_def groupby_sum_def two_spikes_def cost_data_def series_sum_def)

lemma spike_series_std: "series_std [5, 1, 1, 1] = Finite 2" "series_std [1, 1, 1, 5] = Finite 2"
  by (simp_all add: series_std_def series_mean_def series_sum_def)

lemma spike_series_mean: "series_mean [5, 1, 1, 1] = 2" "series_mean [1, 1, 1, 5] = 2"
  by (simp_all add: series_mean_def series_sum_def)

lemma two_spikes_aws:
  "provider_anomalies 1 (daily_costs two_spikes) ''AWS'' =
     [\<lparr> date_str = ''2024-01-05'', provider = ''AWS'', observed_cost = 5,
        expected_range = ''0.00 - 4.00'', severity = ''medium'' \<rparr>]"
  by (simp add: provider_anomalies_filter daily_costs_two_spikes spike_series_std spike_series_mean
      format_fixed_def round_half_even_def render_simps)

lemma two_spikes_gcp:
  "provider_anomalies 1 (daily_costs two_spikes) ''GCP'' =
     [\<lparr> date_str = ''2024-01-10'', provider = ''GCP'', observed_cost = 5,
        expected_range = ''0.00 - 4.00'', severity = ''medium'' \<rparr>]"
  by (simp add: provider_anomalies_filter daily_costs_two_spikes spike_series_std spike_series_mean
      format_fixed_def round_half_even_def render_simps)

lemma detect_anomalies_two_spikes:
  "detect_anomalies two_spikes 1 =
     [\<lparr> date_str = ''2024-01-10'', provider = ''GCP'', observed_cost = 5,
        expected_range = ''0.00 - 4.00'', severity = ''medium'' \<rparr>,
      \<lparr> date_str = ''2024-01-05'', provider = ''AWS'', observed_cost = 5,
        expected_range = ''0.00 - 4.00'', severity = ''medium'' \<rparr>]"
proof -
  have ne: "two_spikes \<noteq> []"
    by (simp add: two_spikes_def)
  have providers: "unique (map (\<lambda>row. snd (fst row)) (daily_costs two_spikes)) = [''AWS'', ''GCP'']"
    by (simp add: daily_costs_two_spikes)
  have "detect_anomalies two_spikes 1 =
      sorted_reverse date_str
        [\<lparr> date_str = ''2024-01-05'', provider = ''AWS'', observed_cost = 5,
           expected_range = ''0.00 - 4.00'', severity = ''medium'' \<rparr>,
         \<lparr> date_str = ''2024-01-10'', provider = ''GCP'', observed_cost = 5,
           expected_range = ''0.00 - 4.00'', severity = ''medium'' \<rparr>]"
    using ne
    by (simp only: detect_anomalies_def providers if_False list.map concat.simps append_Nil2
        two_spikes_aws two_spikes_gcp append_Cons append_Nil)
  also have "\<dots> =
     [\<lparr> date_str = ''2024-01-10'', provider = ''GCP'', observed_cost = 5,
        expected_range = ''0.00 - 4.00'', severity = ''medium'' \<rparr>,
      \<lparr> date_str = ''2024-01-05'', provider = ''AWS'', observed_cost = 5,
        expected_range = ''0.00 - 4.00'', severity = ''medium'' \<rparr>]"
    by (rule sorted_reverse_two) simp
  finally show ?thesis .
qed

theorem anomalies_most_recent_first_witness:
  "detect_anomalies two_spikes 1 =
     [\<lparr> date_str = ''2024-01-10'', provider = ''GCP'', observed_cost = 5,
        expected_range = ''0.00 - 4.00'', severity = ''medium'' \<rparr>,
      \<lparr> date_str = ''2024-01-05'', provider = ''AWS'', observed_cost = 5,
        expected_range = ''0.00 - 4.00'', severity = ''medium'' \<rparr>] \<and>
   (\<exists>ds. set ds \<subseteq> date ` set two_spikes \<and>
      map date_str (detect_anomalies two_spikes 1) = map strftime ds \<and>
      sorted (rev (map calendar_day ds)))"
proof -
  have valid: "\<forall>r\<in>set two_spikes. valid_date (date r)"
    by (simp add: two_spikes_def cost_data_def)
  show ?thesis
    using detect_anomalies_two_spikes anomalies_most_recent_first [OF valid, of 1]
    by (intro conjI)
qed

end
